theory Spec2Isabelle
  imports Complex_Main
begin

section \<open>Switch symbols of schemdraw (\<^verbatim>\<open>schemdraw/elements/switches.py\<close>)\<close>

text \<open>
  Every class of the module is a constructor that appends drawing primitives to the
  element's segment list and stores named points in its anchor dictionary. The
  constructors are embedded as functions returning the finished element; \<^verbatim>\<open>self\<close> is
  threaded through a chain of \<open>let\<close> bindings in the order of the source's statements.

  Python's \<^verbatim>\<open>float\<close> is read as \<^typ>\<open>real\<close>: \<^verbatim>\<open>math.cos\<close>, \<^verbatim>\<open>math.sin\<close> and
  \<^verbatim>\<open>math.radians\<close> are the exact functions and decimal literals are exact rationals, so
  the theorems speak about the geometry the formulas describe and not about rounding.
  The positional arguments \<^verbatim>\<open>*d\<close> and the remaining keywords \<^verbatim>\<open>**kwargs\<close> are only
  handed to the base class and play no part in what the constructors append.
\<close>

subsection \<open>Data model\<close>

type_synonym point = "real \<times> real"

text \<open>An entry of a polyline: a coordinate pair, or the pen-up marker \<^verbatim>\<open>gap\<close>.\<close>

datatype vertex = Pt real real | gap

text \<open>
  The four primitives the module builds, with the arguments it passes:
  \<^verbatim>\<open>Segment(path, ls=None)\<close>, \<^verbatim>\<open>SegmentCircle(center, radius)\<close>,
  \<^verbatim>\<open>SegmentArc(center, width, height, theta1, theta2, arrow)\<close> and
  \<^verbatim>\<open>SegmentArrow(tail, head, zorder)\<close>.
\<close>

datatype segment =
    Segment "vertex list" "string option"
  | SegmentCircle point real
  | SegmentArc point real real real real string
  | SegmentArrow point point int

text \<open>Values stored in the parameter dictionary by this module.\<close>

datatype param = PStr string | PInt int | PList "real list"

record element =
  segments :: "segment list"
  anchors :: "string \<rightharpoonup> point"
  params :: "string \<rightharpoonup> param"

datatype py_error = ZeroDivisionError | IndexError

text \<open>
  Modelled from the spec: the base classes \<^verbatim>\<open>Element\<close> and \<^verbatim>\<open>Element2Term\<close> are
  imported from \<^verbatim>\<open>.elements\<close>, which is not part of the sources at hand. The spec
  describes the element as a container owning an ordered, append-only list of segments,
  a mapping from anchor name to point and a parameter dictionary, all populated by the
  constructor of the subclass; the base constructor therefore hands over empty
  containers.
\<close>

definition Element_init :: element where
  "Element_init = \<lparr>segments = [], anchors = Map.empty, params = Map.empty\<rparr>"

definition Element2Term_init :: element where
  "Element2Term_init = Element_init"

text \<open>\<^verbatim>\<open>self.segments.append(s)\<close>, \<^verbatim>\<open>self.anchors[k] = p\<close>, \<^verbatim>\<open>self.params[k] = v\<close>.\<close>

definition segments_append :: "segment \<Rightarrow> element \<Rightarrow> element" where
  "segments_append s self = self\<lparr>segments := segments self @ [s]\<rparr>"

definition anchors_set :: "string \<Rightarrow> point \<Rightarrow> element \<Rightarrow> element" where
  "anchors_set k p self = self\<lparr>anchors := (anchors self)(k \<mapsto> p)\<rparr>"

definition params_set :: "string \<Rightarrow> param \<Rightarrow> element \<Rightarrow> element" where
  "params_set k v self = self\<lparr>params := (params self)(k \<mapsto> v)\<rparr>"

definition sw_dot_r :: real where
  "sw_dot_r = 0.12"

subsection \<open>Switch, SwitchSpdt, SwitchSpdt2\<close>

text \<open>
  \<^verbatim>\<open>action\<close> has type \<^verbatim>\<open>Optional[Literal['open', 'close']]\<close>; nothing checks the
  literal, so any string can arrive. The two tests of \<^verbatim>\<open>Switch\<close> are independent
  \<^verbatim>\<open>if\<close> statements, those of \<^verbatim>\<open>SwitchSpdt2\<close> an \<^verbatim>\<open>if\<close>/\<^verbatim>\<open>elif\<close> chain.
  \<^verbatim>\<open>SwitchSpdt\<close> runs the constructor of \<^verbatim>\<open>Switch\<close> on \<^verbatim>\<open>self\<close> first, with the
  action it was given. \<^verbatim>\<open>SwitchSpdt2\<close> hands its action to the base constructor as
  one more keyword, where it adds no segment and no anchor.
\<close>

definition Switch :: "string option \<Rightarrow> element" where
  "Switch action =
    (let self = Element2Term_init;
         self = segments_append
           (Segment [Pt 0 0, gap, Pt (sw_dot_r * 2) 0.1, Pt 0.8 0.45, gap, Pt 1 0] None) self;
         self = segments_append (SegmentCircle (sw_dot_r, 0) sw_dot_r) self;
         self = segments_append (SegmentCircle (1 - sw_dot_r, 0) sw_dot_r) self;
         self = (if action = Some ''open''
                 then segments_append (SegmentArc (0.4, 0.1) 0.5 0.75 (- 10) 70 ''ccw'') self
                 else self);
         self = (if action = Some ''close''
                 then segments_append (SegmentArc (0.4, 0.25) 0.5 0.75 (- 10) 70 ''cw'') self
                 else self)
     in self)"

definition SwitchSpdt :: "string option \<Rightarrow> element" where
  "SwitchSpdt action =
    (let self = Switch action;
         self = segments_append (SegmentCircle (1 - sw_dot_r, 0.7) sw_dot_r) self;
         self = anchors_set ''a'' (0, 0) self;
         self = anchors_set ''b'' (1, 0) self;
         self = anchors_set ''c'' (1, 0.7) self
     in self)"

definition SwitchSpdt2 :: "string option \<Rightarrow> element" where
  "SwitchSpdt2 action =
    (let self = Element_init;
         self = segments_append
           (Segment [Pt 0 0, gap, Pt (sw_dot_r * 2) 0.1, Pt 0.7 0.25, gap, Pt 1 0.4] None) self;
         self = segments_append (SegmentCircle (sw_dot_r, 0) sw_dot_r) self;
         self = segments_append (SegmentCircle (1 - sw_dot_r, - 0.4) sw_dot_r) self;
         self = segments_append (SegmentCircle (1 - sw_dot_r, 0.4) sw_dot_r) self;
         self = anchors_set ''a'' (0, 0) self;
         self = anchors_set ''b'' (1, 0.4) self;
         self = anchors_set ''c'' (1, - 0.4) self;
         self = (if action = Some ''open''
                 then segments_append (SegmentArc (0.35, 0) 0.5 0.75 (- 10) 70 ''ccw'') self
                 else if action = Some ''close''
                 then segments_append (SegmentArc (0.3, 0) 0.5 0.75 (- 10) 70 ''cw'') self
                 else self);
         self = params_set ''drop'' (PList [1, 0.4]) self
     in self)"

subsection \<open>Button\<close>

definition Button :: "bool \<Rightarrow> element" where
  "Button nc =
    (let self = Element2Term_init;
         self = (if nc
                 then segments_append
                   (Segment [Pt 0 0, gap, Pt sw_dot_r (- sw_dot_r - 0.05),
                             Pt (1 - sw_dot_r) (- sw_dot_r - 0.05), gap, Pt 0.5 (- sw_dot_r - 0.05),
                             Pt 0.5 (sw_dot_r + 0.15), gap, Pt 1 0] None) self
                 else segments_append
                   (Segment [Pt 0 0, gap, Pt sw_dot_r 0.3, Pt (1 - sw_dot_r) 0.3,
                             gap, Pt 0.5 0.3, Pt 0.5 0.5, gap, Pt 1 0] None) self);
         self = segments_append (SegmentCircle (sw_dot_r, 0) sw_dot_r) self;
         self = segments_append (SegmentCircle (1 - sw_dot_r, 0) sw_dot_r) self
     in self)"

subsection \<open>SwitchDpst, SwitchDpdt\<close>

definition SwitchDpst :: "bool \<Rightarrow> element" where
  "SwitchDpst link =
    (let self = Element_init;
         yofst = - 1;
         self = segments_append
           (Segment [Pt 0 0, gap, Pt (sw_dot_r * 2) 0.1, Pt 0.8 0.45, gap, Pt 1 0] None) self;
         self = segments_append (SegmentCircle (sw_dot_r, 0) sw_dot_r) self;
         self = segments_append (SegmentCircle (1 - sw_dot_r, 0) sw_dot_r) self;
         self = segments_append
           (Segment [Pt 0 yofst, gap, Pt (sw_dot_r * 2) (yofst + 0.1),
                     Pt 0.8 (yofst + 0.45), gap, Pt 1 yofst] None) self;
         self = segments_append (SegmentCircle (sw_dot_r, yofst) sw_dot_r) self;
         self = segments_append (SegmentCircle (1 - sw_dot_r, yofst) sw_dot_r) self;
         self = (if link
                 then segments_append
                   (Segment [Pt 0.5 (yofst + 0.25), Pt 0.5 0.2] (Some '':'')) self
                 else self);
         self = anchors_set ''p1'' (0, 0) self;
         self = anchors_set ''t1'' (1, 0) self;
         self = anchors_set ''p2'' (0, yofst) self;
         self = anchors_set ''t2'' (1, yofst) self
     in self)"

definition SwitchDpdt :: "bool \<Rightarrow> element" where
  "SwitchDpdt link =
    (let self = Element_init;
         yofst = - 1.4;
         self = segments_append
           (Segment [Pt 0 0, gap, Pt (sw_dot_r * 2) 0.1, Pt 0.7 0.25, gap, Pt 1 0.4] None) self;
         self = segments_append (SegmentCircle (sw_dot_r, 0) sw_dot_r) self;
         self = segments_append (SegmentCircle (1 - sw_dot_r, - 0.4) sw_dot_r) self;
         self = segments_append (SegmentCircle (1 - sw_dot_r, 0.4) sw_dot_r) self;
         self = segments_append
           (Segment [Pt 0 yofst, gap, Pt (sw_dot_r * 2) (yofst + 0.1),
                     Pt 0.7 (yofst + 0.25), gap, Pt 1 (yofst + 0.4)] None) self;
         self = segments_append (SegmentCircle (sw_dot_r, yofst) sw_dot_r) self;
         self = segments_append (SegmentCircle (1 - sw_dot_r, yofst - 0.4) sw_dot_r) self;
         self = segments_append (SegmentCircle (1 - sw_dot_r, yofst + 0.4) sw_dot_r) self;
         self = (if link
                 then segments_append
                   (Segment [Pt 0.5 (yofst + 0.25), Pt 0.5 0.2] (Some '':'')) self
                 else self);
         self = anchors_set ''p1'' (0, 0) self;
         self = anchors_set ''t1'' (1, 0.4) self;
         self = anchors_set ''t2'' (1, - 0.4) self;
         self = anchors_set ''p2'' (0, yofst) self;
         self = anchors_set ''t3'' (1, yofst + 0.4) self;
         self = anchors_set ''t4'' (1, yofst - 0.4) self
     in self)"

subsection \<open>SwitchReed\<close>

text \<open>
  \<^verbatim>\<open>linspace\<close> comes from \<^verbatim>\<open>..util\<close>, which is not among the sources; it is a
  parameter of the model, called as the source calls it, with the two interval ends
  and the sample count left to its default. \<^verbatim>\<open>x1[0]\<close> and \<^verbatim>\<open>y1[0]\<close> raise
  \<^verbatim>\<open>IndexError\<close> on an empty list.
\<close>

definition SwitchReed :: "(real \<Rightarrow> real \<Rightarrow> real list) \<Rightarrow> py_error + element" where
  "SwitchReed linspace =
    (let self = Element2Term_init;
         self = segments_append (Segment [Pt 0 0, Pt 0.85 0.15, gap, Pt 0.8 0] None) self;
         r = 0.3;
         th = linspace (- pi / 2) (pi / 2);
         x1 = map (\<lambda>t. - r * cos t) th;
         y1 = map (\<lambda>t. r * sin t) th;
         x2 = map (\<lambda>k. 1 - k) x1
     in case x1 of
          [] \<Rightarrow> Inl IndexError
        | x1_0 # _ \<Rightarrow>
            (let x = x1 @ x2 @ [x1_0]
             in case y1 of
                  [] \<Rightarrow> Inl IndexError
                | y1_0 # _ \<Rightarrow>
                    (let y = y1 @ rev y1 @ [y1_0]
                     in Inr (segments_append
                               (Segment (map (\<lambda>(a, b). Pt a b) (zip x y)) None) self))))"

subsection \<open>SwitchRotary\<close>

text \<open>\<^verbatim>\<open>math.radians\<close>.\<close>

definition radians :: "real \<Rightarrow> real" where
  "radians d = d * pi / 180"

text \<open>
  The decimal numeral that the f-string \<^verbatim>\<open>f'T{i+1}'\<close> writes for a non-negative
  integer.
\<close>

definition digit_char :: "nat \<Rightarrow> char" where
  "digit_char d = ''0123456789'' ! d"

fun str_nat :: "nat \<Rightarrow> string" where
  "str_nat n = (if n < 10 then [digit_char n] else str_nat (n div 10) @ [digit_char (n mod 10)])"

text \<open>
  One pass of the loop body, for the index \<open>i\<close> of \<^verbatim>\<open>range(n)\<close>. The comparison
  \<^verbatim>\<open>i == arrowcontact\<close> is between integers; \<^verbatim>\<open>arrowcontact\<close> may be negative.
\<close>

definition rotary_contact ::
    "real \<Rightarrow> real \<Rightarrow> real \<Rightarrow> real \<Rightarrow> int \<Rightarrow> element \<Rightarrow> nat \<Rightarrow> element" where
  "rotary_contact theta0 dtheta radius arrowlen arrowcontact self i =
    (let t = theta0 + dtheta * real i;
         x = radius * cos t;
         y = radius * sin t;
         self = segments_append (SegmentCircle (x, y) sw_dot_r) self;
         self = anchors_set (''T'' @ str_nat (i + 1)) (x, y) self
     in if int i = arrowcontact
        then (let arrowx = arrowlen * cos t;
                  arrowy = arrowlen * sin t
              in segments_append (SegmentArrow (0, 0) (arrowx, arrowy) 2) self)
        else self)"

text \<open>
  The arguments are \<^verbatim>\<open>n\<close> (default 4), \<^verbatim>\<open>dtheta\<close> and \<^verbatim>\<open>theta0\<close> (default
  \<^verbatim>\<open>None\<close>), \<^verbatim>\<open>radius\<close> (default 1), \<^verbatim>\<open>arrowlen\<close> (default 0.75) and
  \<^verbatim>\<open>arrowcontact\<close> (default 0). The quotient \<^verbatim>\<open>360/(n+1)\<close> raises
  \<^verbatim>\<open>ZeroDivisionError\<close> when \<^verbatim>\<open>n\<close> is \<open>-1\<close>; \<^verbatim>\<open>range(n)\<close> is empty for
  \<^verbatim>\<open>n \<le> 0\<close>. A supplied \<^verbatim>\<open>dtheta\<close> goes through \<^verbatim>\<open>math.radians\<close>; a supplied
  \<^verbatim>\<open>theta0\<close> is used as it is.
\<close>

definition SwitchRotary ::
    "int \<Rightarrow> real option \<Rightarrow> real option \<Rightarrow> real \<Rightarrow> real \<Rightarrow> int \<Rightarrow> py_error + element" where
  "SwitchRotary n dtheta theta0 radius arrowlen arrowcontact =
    (let self = Element_init;
         self = params_set ''fill'' (PStr ''bg'') self;
         self = params_set ''zorder'' (PInt 4) self;
         self = segments_append (SegmentCircle (0, 0) sw_dot_r) self;
         self = anchors_set ''P'' (0, 0) self
     in case (case dtheta of
                None \<Rightarrow> (if n + 1 = 0 then Inl ZeroDivisionError
                          else Inr (min 35 (360 / real_of_int (n + 1))))
              | Some d \<Rightarrow> Inr d) of
          Inl e \<Rightarrow> Inl e
        | Inr dtheta \<Rightarrow>
            (let dtheta = radians dtheta;
                 theta0 = (case theta0 of
                             None \<Rightarrow> - dtheta * real_of_int (n - 1) / 2
                           | Some t0 \<Rightarrow> t0)
             in Inr (foldl (rotary_contact theta0 dtheta radius arrowlen arrowcontact)
                       self [0..<nat n])))"

subsection \<open>Observations on a segment list\<close>

fun is_arc :: "segment \<Rightarrow> bool" where
  "is_arc (SegmentArc c w h t1 t2 a) = True"
| "is_arc s = False"

fun is_circle :: "segment \<Rightarrow> bool" where
  "is_circle (SegmentCircle c r) = True"
| "is_circle s = False"

fun is_arrow :: "segment \<Rightarrow> bool" where
  "is_arrow (SegmentArrow p q z) = True"
| "is_arrow s = False"

fun is_dotted :: "segment \<Rightarrow> bool" where
  "is_dotted (Segment path ls) = (ls = Some '':'')"
| "is_dotted s = False"

fun circle_centers :: "segment list \<Rightarrow> point list" where
  "circle_centers [] = []"
| "circle_centers (SegmentCircle c r # ss) = c # circle_centers ss"
| "circle_centers (s # ss) = circle_centers ss"

lemmas element_ops = Element_init_def Element2Term_init_def segments_append_def
  anchors_set_def params_set_def

declare str_nat.simps [simp del]

section \<open>Toggle switches\<close>

lemma Switch_segments:
  "segments (Switch action) =
     [Segment [Pt 0 0, gap, Pt (sw_dot_r * 2) 0.1, Pt 0.8 0.45, gap, Pt 1 0] None,
      SegmentCircle (sw_dot_r, 0) sw_dot_r,
      SegmentCircle (1 - sw_dot_r, 0) sw_dot_r]
     @ (if action = Some ''open'' then [SegmentArc (0.4, 0.1) 0.5 0.75 (- 10) 70 ''ccw''] else [])
     @ (if action = Some ''close'' then [SegmentArc (0.4, 0.25) 0.5 0.75 (- 10) 70 ''cw''] else [])"
  by (simp add: Switch_def element_ops Let_def)

text \<open>
  Claim C4. \<^verbatim>\<open>Switch\<close> without an action produces exactly three segments, the lever
  polyline and the two contact circles, and no arc. With \<^verbatim>\<open>action='open'\<close> exactly one
  arc is added and its arrow style is \<^verbatim>\<open>ccw\<close>; with \<^verbatim>\<open>action='close'\<close> exactly one arc
  is added and its arrow style is \<^verbatim>\<open>cw\<close>. No action yields more than one arc, and an
  action other than the two literals yields the segments of the plain switch.
\<close>

theorem Switch_action_arc:
  "segments (Switch None) =
     [Segment [Pt 0 0, gap, Pt (sw_dot_r * 2) 0.1, Pt 0.8 0.45, gap, Pt 1 0] None,
      SegmentCircle (sw_dot_r, 0) sw_dot_r,
      SegmentCircle (1 - sw_dot_r, 0) sw_dot_r]
   \<and> length (segments (Switch None)) = 3
   \<and> filter is_arc (segments (Switch None)) = []
   \<and> filter is_arc (segments (Switch (Some ''open'')))
        = [SegmentArc (0.4, 0.1) 0.5 0.75 (- 10) 70 ''ccw'']
   \<and> length (segments (Switch (Some ''open''))) = 4
   \<and> filter is_arc (segments (Switch (Some ''close'')))
        = [SegmentArc (0.4, 0.25) 0.5 0.75 (- 10) 70 ''cw'']
   \<and> length (segments (Switch (Some ''close''))) = 4
   \<and> length (filter is_arc (segments (Switch action))) \<le> 1
   \<and> (action \<noteq> Some ''open'' \<and> action \<noteq> Some ''close''
        \<longrightarrow> filter is_arc (segments (Switch action)) = []
          \<and> segments (Switch action) = segments (Switch None))"
  by (simp add: Switch_segments)

theorem Switch_action_arc_witness:
  "Some ''toggle'' \<noteq> Some ''open'' \<and> Some ''toggle'' \<noteq> Some ''close''
   \<and> filter is_arc (segments (Switch (Some ''toggle''))) = []
   \<and> length (segments (Switch (Some ''toggle''))) = 3"
  using Switch_action_arc [of "Some ''toggle''"] by simp

text \<open>
  Claim C6. For every action, \<^verbatim>\<open>SwitchSpdt\<close> has exactly the anchors \<open>a = (0, 0)\<close>,
  \<open>b = (1, 0)\<close> and \<open>c = (1, 0.7)\<close>; its segments are those of \<^verbatim>\<open>Switch\<close> for the same
  action followed by the third contact circle.
\<close>

theorem SwitchSpdt_anchors:
  "anchors (SwitchSpdt action) = [''a'' \<mapsto> (0, 0), ''b'' \<mapsto> (1, 0), ''c'' \<mapsto> (1, 0.7)]
   \<and> dom (anchors (SwitchSpdt action)) = {''a'', ''b'', ''c''}
   \<and> segments (SwitchSpdt action)
        = segments (Switch action) @ [SegmentCircle (1 - sw_dot_r, 0.7) sw_dot_r]
   \<and> params (SwitchSpdt action) = params (Switch action)"
  by (auto simp add: SwitchSpdt_def Switch_def element_ops Let_def)

text \<open>
  Claim C5, as stated, places the three contact circles of \<^verbatim>\<open>SwitchSpdt2\<close> at
  \<open>(0, 0)\<close>, \<open>(1, -0.4)\<close> and \<open>(1, 0.4)\<close>. Those are the anchors; no circle of the
  element is centered at the origin.
\<close>

theorem SwitchSpdt2_circle_centers_counterexample:
  "(0, 0) \<notin> set (circle_centers (segments (SwitchSpdt2 None)))"
  by (simp add: SwitchSpdt2_def element_ops Let_def sw_dot_r_def)

text \<open>
  Claim C5, amended. For every action, \<^verbatim>\<open>SwitchSpdt2\<close> produces exactly three contact
  circles of radius \<open>sw_dot_r\<close>, centered at \<open>(sw_dot_r, 0)\<close>, \<open>(1 - sw_dot_r, -0.4)\<close> and
  \<open>(1 - sw_dot_r, 0.4)\<close>, that is \<open>(0.12, 0)\<close>, \<open>(0.88, -0.4)\<close> and \<open>(0.88, 0.4)\<close>; its first
  segment is the lever polyline from \<open>(0, 0)\<close> to \<open>(1, 0.4)\<close>; its anchors are
  \<open>a = (0, 0)\<close>, \<open>b = (1, 0.4)\<close> and \<open>c = (1, -0.4)\<close>; and its only parameter is
  \<^verbatim>\<open>drop\<close>, set to \<open>[1, 0.4]\<close>.
\<close>

theorem SwitchSpdt2_geometry:
  "filter is_circle (segments (SwitchSpdt2 action)) =
      [SegmentCircle (sw_dot_r, 0) sw_dot_r, SegmentCircle (1 - sw_dot_r, - 0.4) sw_dot_r,
       SegmentCircle (1 - sw_dot_r, 0.4) sw_dot_r]
   \<and> circle_centers (segments (SwitchSpdt2 action)) = [(0.12, 0), (0.88, - 0.4), (0.88, 0.4)]
   \<and> hd (segments (SwitchSpdt2 action)) =
        Segment [Pt 0 0, gap, Pt (sw_dot_r * 2) 0.1, Pt 0.7 0.25, gap, Pt 1 0.4] None
   \<and> anchors (SwitchSpdt2 action) = [''a'' \<mapsto> (0, 0), ''b'' \<mapsto> (1, 0.4), ''c'' \<mapsto> (1, - 0.4)]
   \<and> params (SwitchSpdt2 action) = [''drop'' \<mapsto> PList [1, 0.4]]"
  by (simp add: SwitchSpdt2_def element_ops Let_def sw_dot_r_def)

section \<open>Double-pole switches\<close>

lemma SwitchDpst_segments:
  "segments (SwitchDpst link) =
     [Segment [Pt 0 0, gap, Pt (sw_dot_r * 2) 0.1, Pt 0.8 0.45, gap, Pt 1 0] None,
      SegmentCircle (sw_dot_r, 0) sw_dot_r,
      SegmentCircle (1 - sw_dot_r, 0) sw_dot_r,
      Segment [Pt 0 (- 1), gap, Pt (sw_dot_r * 2) (- 0.9), Pt 0.8 (- 0.55), gap, Pt 1 (- 1)] None,
      SegmentCircle (sw_dot_r, - 1) sw_dot_r,
      SegmentCircle (1 - sw_dot_r, - 1) sw_dot_r]
     @ (if link then [Segment [Pt 0.5 (- 0.75), Pt 0.5 0.2] (Some '':'')] else [])"
  by (simp add: SwitchDpst_def element_ops Let_def)

lemma SwitchDpst_anchors:
  "anchors (SwitchDpst link) =
     [''p1'' \<mapsto> (0, 0), ''t1'' \<mapsto> (1, 0), ''p2'' \<mapsto> (0, - 1), ''t2'' \<mapsto> (1, - 1)]"
  by (simp add: SwitchDpst_def element_ops Let_def)

lemma SwitchDpst_params: "params (SwitchDpst link) = Map.empty"
  by (simp add: SwitchDpst_def element_ops Let_def)

lemma SwitchDpdt_segments:
  "segments (SwitchDpdt link) =
     [Segment [Pt 0 0, gap, Pt (sw_dot_r * 2) 0.1, Pt 0.7 0.25, gap, Pt 1 0.4] None,
      SegmentCircle (sw_dot_r, 0) sw_dot_r,
      SegmentCircle (1 - sw_dot_r, - 0.4) sw_dot_r,
      SegmentCircle (1 - sw_dot_r, 0.4) sw_dot_r,
      Segment [Pt 0 (- 1.4), gap, Pt (sw_dot_r * 2) (- 1.3), Pt 0.7 (- 1.15), gap, Pt 1 (- 1)] None,
      SegmentCircle (sw_dot_r, - 1.4) sw_dot_r,
      SegmentCircle (1 - sw_dot_r, - 1.8) sw_dot_r,
      SegmentCircle (1 - sw_dot_r, - 1) sw_dot_r]
     @ (if link then [Segment [Pt 0.5 (- 1.15), Pt 0.5 0.2] (Some '':'')] else [])"
  by (simp add: SwitchDpdt_def element_ops Let_def)

lemma SwitchDpdt_anchors:
  "anchors (SwitchDpdt link) =
     [''p1'' \<mapsto> (0, 0), ''t1'' \<mapsto> (1, 0.4), ''t2'' \<mapsto> (1, - 0.4), ''p2'' \<mapsto> (0, - 1.4),
      ''t3'' \<mapsto> (1, - 1), ''t4'' \<mapsto> (1, - 1.8)]"
  by (simp add: SwitchDpdt_def element_ops Let_def)

lemma SwitchDpdt_params: "params (SwitchDpdt link) = Map.empty"
  by (simp add: SwitchDpdt_def element_ops Let_def)

text \<open>
  Claim C7. In \<^verbatim>\<open>SwitchDpst\<close> and \<^verbatim>\<open>SwitchDpdt\<close> the dotted link segment (line style
  \<^verbatim>\<open>':'\<close>) is in the segment list exactly when \<^verbatim>\<open>link\<close> is true, and it is then the
  only dotted segment. With \<^verbatim>\<open>link=False\<close> the segment list is the one for
  \<^verbatim>\<open>link=True\<close> without its last entry, the link, and anchors and parameters are the
  same.
\<close>

theorem SwitchDp_link:
  "(Segment [Pt 0.5 (- 0.75), Pt 0.5 0.2] (Some '':'') \<in> set (segments (SwitchDpst link))) = link
   \<and> filter is_dotted (segments (SwitchDpst link)) =
       (if link then [Segment [Pt 0.5 (- 0.75), Pt 0.5 0.2] (Some '':'')] else [])
   \<and> segments (SwitchDpst True) =
       segments (SwitchDpst False) @ [Segment [Pt 0.5 (- 0.75), Pt 0.5 0.2] (Some '':'')]
   \<and> filter is_dotted (segments (SwitchDpst False)) = []
   \<and> length (segments (SwitchDpst False)) = 6
   \<and> anchors (SwitchDpst False) = anchors (SwitchDpst True)
   \<and> params (SwitchDpst False) = params (SwitchDpst True)
   \<and> (Segment [Pt 0.5 (- 1.15), Pt 0.5 0.2] (Some '':'') \<in> set (segments (SwitchDpdt link))) = link
   \<and> filter is_dotted (segments (SwitchDpdt link)) =
       (if link then [Segment [Pt 0.5 (- 1.15), Pt 0.5 0.2] (Some '':'')] else [])
   \<and> segments (SwitchDpdt True) =
       segments (SwitchDpdt False) @ [Segment [Pt 0.5 (- 1.15), Pt 0.5 0.2] (Some '':'')]
   \<and> filter is_dotted (segments (SwitchDpdt False)) = []
   \<and> length (segments (SwitchDpdt False)) = 8
   \<and> anchors (SwitchDpdt False) = anchors (SwitchDpdt True)
   \<and> params (SwitchDpdt False) = params (SwitchDpdt True)"
  by (simp add: SwitchDpst_segments SwitchDpst_anchors SwitchDpst_params
      SwitchDpdt_segments SwitchDpdt_anchors SwitchDpdt_params)

section \<open>Reed switch\<close>

lemma case_list_hd:
  "xs \<noteq> [] \<Longrightarrow> (case xs of [] \<Rightarrow> a | x # rest \<Rightarrow> f x) = f (hd xs)"
  by (cases xs) simp_all

lemma reed_envelope_points:
  "map (\<lambda>(a, b). Pt a b)
       (zip (map fx th @ map g (map fx th) @ [a]) (map fy th @ rev (map fy th) @ [b]))
   = map (\<lambda>t. Pt (fx t) (fy t)) th
     @ map (\<lambda>(t, u). Pt (g (fx t)) (fy u)) (zip th (rev th))
     @ [Pt a b]"
  by (auto simp add: zip_map_map zip_same_conv_map rev_map)

lemma SwitchReed_Inr:
  assumes "linspace (- pi / 2) (pi / 2) = th" and "th \<noteq> []"
  shows "SwitchReed linspace =
    Inr \<lparr>segments = [Segment [Pt 0 0, Pt 0.85 0.15, gap, Pt 0.8 0] None,
           Segment (map (\<lambda>t. Pt (- 0.3 * cos t) (0.3 * sin t)) th
             @ map (\<lambda>(t, u). Pt (1 - (- 0.3 * cos t)) (0.3 * sin u)) (zip th (rev th))
             @ [Pt (- 0.3 * cos (hd th)) (0.3 * sin (hd th))]) None],
         anchors = Map.empty, params = Map.empty\<rparr>"
proof -
  have n: "map (\<lambda>t. - 0.3 * cos t) th \<noteq> []" "map (\<lambda>t. 0.3 * sin t) th \<noteq> []"
    using assms(2) by simp_all
  have h: "hd (map (\<lambda>t. - 0.3 * cos t) th) = - 0.3 * cos (hd th)"
    "hd (map (\<lambda>t. 0.3 * sin t) th) = 0.3 * sin (hd th)"
    using assms(2) by (simp_all add: hd_map)
  show ?thesis
    unfolding SwitchReed_def Let_def assms(1) case_list_hd [OF n(1)] case_list_hd [OF n(2)] h
      reed_envelope_points
    by (simp add: element_ops)
qed

text \<open>
  Claim C8. Whenever \<^verbatim>\<open>linspace\<close> returns \<open>k > 0\<close> sample angles \<open>th\<close>, \<^verbatim>\<open>SwitchReed\<close>
  returns an element whose second segment is the envelope: the \<open>k\<close> points of the left
  semicircle, the \<open>k\<close> points of the right one and the first point once more. Every
  entry of the envelope is a point, none is the pen-up marker; there are \<open>2k + 1\<close> of
  them; and the first point equals the last.
\<close>

theorem SwitchReed_envelope:
  assumes "th = linspace (- pi / 2) (pi / 2)" and "th \<noteq> []"
  shows "\<exists>env. SwitchReed linspace =
            Inr \<lparr>segments = [Segment [Pt 0 0, Pt 0.85 0.15, gap, Pt 0.8 0] None, Segment env None],
                 anchors = Map.empty, params = Map.empty\<rparr>
          \<and> env = map (\<lambda>t. Pt (- 0.3 * cos t) (0.3 * sin t)) th
                   @ map (\<lambda>(t, u). Pt (1 - (- 0.3 * cos t)) (0.3 * sin u)) (zip th (rev th))
                   @ [Pt (- 0.3 * cos (hd th)) (0.3 * sin (hd th))]
          \<and> gap \<notin> set env
          \<and> length env = 2 * length th + 1
          \<and> hd env = last env"
proof -
  let ?env = "map (\<lambda>t. Pt (- 0.3 * cos t) (0.3 * sin t)) th
                   @ map (\<lambda>(t, u). Pt (1 - (- 0.3 * cos t)) (0.3 * sin u)) (zip th (rev th))
                   @ [Pt (- 0.3 * cos (hd th)) (0.3 * sin (hd th))]"
  have r: "SwitchReed linspace =
            Inr \<lparr>segments = [Segment [Pt 0 0, Pt 0.85 0.15, gap, Pt 0.8 0] None, Segment ?env None],
                 anchors = Map.empty, params = Map.empty\<rparr>"
    using assms by (intro SwitchReed_Inr) simp_all
  have g: "gap \<notin> set ?env" by auto
  have l: "length ?env = 2 * length th + 1" by simp
  have c: "hd ?env = last ?env" using assms(2) by (simp add: hd_append hd_map)
  from r g l c show ?thesis by blast
qed

theorem SwitchReed_envelope_witness:
  "\<exists>env. SwitchReed (\<lambda>a b. [a, 0, b]) =
            Inr \<lparr>segments = [Segment [Pt 0 0, Pt 0.85 0.15, gap, Pt 0.8 0] None, Segment env None],
                 anchors = Map.empty, params = Map.empty\<rparr>
          \<and> env = [Pt 0 (- 0.3), Pt (- 0.3) 0, Pt 0 0.3, Pt 1 0.3, Pt 1.3 0, Pt 1 (- 0.3),
                   Pt 0 (- 0.3)]
          \<and> gap \<notin> set env \<and> length env = 7 \<and> hd env = last env"
  using SwitchReed_envelope [of "[- pi / 2, 0, pi / 2]" "\<lambda>a b. [a, 0, b]"] by simp

section \<open>Rotary switch\<close>

lemma digit_char_inj:
  assumes "a < 10" "b < 10" "digit_char a = digit_char b"
  shows "a = b"
proof -
  have d: "distinct ''0123456789''" by simp
  have l: "length ''0123456789'' = 10" by simp
  from assms show ?thesis
    unfolding digit_char_def using nth_eq_iff_index_eq [OF d, of a b] l by simp
qed

lemma str_nat_nonempty: "str_nat n \<noteq> []"
  by (subst str_nat.simps) simp

lemma str_nat_inj: "str_nat m = str_nat n \<Longrightarrow> m = n"
proof (induction m arbitrary: n rule: str_nat.induct)
  case (1 m)
  show ?case
  proof (cases "m < 10")
    case m: True
    show ?thesis
    proof (cases "n < 10")
      case True
      with m "1.prems" show ?thesis
        by (simp add: str_nat.simps [of m] str_nat.simps [of n] digit_char_inj)
    next
      case False
      with m "1.prems" show ?thesis
        using str_nat_nonempty [of "n div 10"]
        by (simp add: str_nat.simps [of m] str_nat.simps [of n])
    qed
  next
    case m: False
    show ?thesis
    proof (cases "n < 10")
      case True
      with m "1.prems" show ?thesis
        using str_nat_nonempty [of "m div 10"]
        by (simp add: str_nat.simps [of m] str_nat.simps [of n])
    next
      case False
      with m "1.prems" have e: "str_nat (m div 10) = str_nat (n div 10)"
        and d: "digit_char (m mod 10) = digit_char (n mod 10)"
        by (simp_all add: str_nat.simps [of m] str_nat.simps [of n])
      from "1.IH" [OF m e] have q: "m div 10 = n div 10" .
      from d have r: "m mod 10 = n mod 10"
        by (rule digit_char_inj [rotated 2]) simp_all
      from q r show ?thesis
        by (metis div_mult_mod_eq)
    qed
  qed
qed

lemma str_nat_digit: "n < 10 \<Longrightarrow> str_nat n = [digit_char n]"
  by (subst str_nat.simps) simp

lemma T_names:
  "''T'' @ str_nat (0 + 1) = ''T1''" "''T'' @ str_nat (1 + 1) = ''T2''"
  "''T'' @ str_nat (2 + 1) = ''T3''" "''T'' @ str_nat (3 + 1) = ''T4''"
  by (simp_all add: str_nat_digit digit_char_def)

lemma rotary_params:
  "params (foldl (rotary_contact t0 dt r al ac) self [0..<k]) = params self"
  by (induction k) (simp_all add: rotary_contact_def element_ops Let_def)

lemma rotary_segments:
  "segments (foldl (rotary_contact t0 dt r al ac) self [0..<k]) =
     segments self @ concat (map (\<lambda>i.
       SegmentCircle (r * cos (t0 + dt * real i), r * sin (t0 + dt * real i)) sw_dot_r
       # (if int i = ac
          then [SegmentArrow (0, 0) (al * cos (t0 + dt * real i), al * sin (t0 + dt * real i)) 2]
          else [])) [0..<k])"
  by (induction k) (simp_all add: rotary_contact_def element_ops Let_def)

lemma rotary_anchors_T:
  "i < k \<Longrightarrow>
   anchors (foldl (rotary_contact t0 dt r al ac) self [0..<k]) (''T'' @ str_nat (i + 1))
     = Some (r * cos (t0 + dt * real i), r * sin (t0 + dt * real i))"
proof (induction k)
  case 0
  then show ?case by simp
next
  case (Suc k)
  show ?case
  proof (cases "i = k")
    case True
    then show ?thesis by (simp add: rotary_contact_def element_ops Let_def)
  next
    case False
    with Suc.prems have "i < k" by simp
    from Suc.IH [OF this] False show ?thesis
      using str_nat_inj [of "Suc k" "Suc i"]
      by (auto simp add: rotary_contact_def element_ops Let_def)
  qed
qed

lemma rotary_anchors_other:
  "(\<And>i. i < k \<Longrightarrow> key \<noteq> ''T'' @ str_nat (i + 1)) \<Longrightarrow>
   anchors (foldl (rotary_contact t0 dt r al ac) self [0..<k]) key = anchors self key"
  by (induction k) (auto simp add: rotary_contact_def element_ops Let_def)

lemma rotary_arrows:
  "filter is_arrow (concat (map (\<lambda>i.
       SegmentCircle (c i) rr # (if int i = ac then [SegmentArrow p (a i) z] else [])) [0..<k]))
   = (if 0 \<le> ac \<and> ac < int k then [SegmentArrow p (a (nat ac)) z] else [])"
  by (induction k) auto

lemma SwitchRotary_Inr:
  assumes "dtheta = None \<longrightarrow> n \<noteq> - 1"
      and "dth = radians (case dtheta of None \<Rightarrow> min 35 (360 / real_of_int (n + 1)) | Some d \<Rightarrow> d)"
      and "th0 = (case theta0 of None \<Rightarrow> - dth * real_of_int (n - 1) / 2 | Some t0 \<Rightarrow> t0)"
  shows "SwitchRotary n dtheta theta0 radius arrowlen arrowcontact =
    Inr (foldl (rotary_contact th0 dth radius arrowlen arrowcontact)
          \<lparr>segments = [SegmentCircle (0, 0) sw_dot_r], anchors = [''P'' \<mapsto> (0, 0)],
           params = [''fill'' \<mapsto> PStr ''bg'', ''zorder'' \<mapsto> PInt 4]\<rparr> [0..<nat n])"
  using assms
  by (cases dtheta; cases theta0) (simp_all add: SwitchRotary_def element_ops Let_def)

lemma rotary_contact_dom:
  "dom (anchors (rotary_contact t0 dt r al ac self i)) =
     insert (''T'' @ str_nat (i + 1)) (dom (anchors self))"
  by (simp add: rotary_contact_def element_ops Let_def)

lemma rotary_anchors_dom:
  "dom (anchors (foldl (rotary_contact t0 dt r al ac) self [0..<k])) =
     dom (anchors self) \<union> (\<lambda>i. ''T'' @ str_nat (i + 1)) ` {..<k}"
  by (induction k) (simp_all add: rotary_contact_dom lessThan_Suc)

lemma rotary_circle_mem:
  "i < k \<Longrightarrow>
   SegmentCircle (r * cos (t0 + dt * real i), r * sin (t0 + dt * real i)) sw_dot_r
     \<in> set (segments (foldl (rotary_contact t0 dt r al ac) self [0..<k]))"
  unfolding rotary_segments by (auto intro!: bexI [of _ i])

lemma default_angles_4:
  "- radians 35 * real_of_int (4 - 1) / 2 + radians 35 * 0 = radians (- 52.5)"
  "- radians 35 * real_of_int (4 - 1) / 2 + radians 35 * 1 = radians (- 17.5)"
  "- radians 35 * real_of_int (4 - 1) / 2 + radians 35 * 2 = radians 17.5"
  "- radians 35 * real_of_int (4 - 1) / 2 + radians 35 * 3 = radians 52.5"
  by (simp_all add: radians_def)

lemma SwitchRotary_4:
  "SwitchRotary 4 None None radius arrowlen arrowcontact =
    Inr (foldl (rotary_contact (- radians 35 * real_of_int (4 - 1) / 2) (radians 35)
                  radius arrowlen arrowcontact)
          \<lparr>segments = [SegmentCircle (0, 0) sw_dot_r], anchors = [''P'' \<mapsto> (0, 0)],
           params = [''fill'' \<mapsto> PStr ''bg'', ''zorder'' \<mapsto> PInt 4]\<rparr> [0, 1, 2, 3])"
proof -
  have u: "[0..<nat 4] = [0, 1, 2, 3]"
    by (simp add: eval_nat_numeral)
  show ?thesis
    by (subst SwitchRotary_Inr [where dth = "radians 35"
          and ?th0.0 = "- radians 35 * real_of_int (4 - 1) / 2"]) (simp_all only: u, simp_all)
qed

lemma SwitchRotary_4_anchors:
  "anchors (foldl (rotary_contact (- radians 35 * real_of_int (4 - 1) / 2) (radians 35)
                  1 arrowlen arrowcontact)
          \<lparr>segments = [SegmentCircle (0, 0) sw_dot_r], anchors = [''P'' \<mapsto> (0, 0)],
           params = [''fill'' \<mapsto> PStr ''bg'', ''zorder'' \<mapsto> PInt 4]\<rparr> [0, 1, 2, 3])
   = [''P'' \<mapsto> (0, 0),
      ''T1'' \<mapsto> (cos (radians (- 52.5)), sin (radians (- 52.5))),
      ''T2'' \<mapsto> (cos (radians (- 17.5)), sin (radians (- 17.5))),
      ''T3'' \<mapsto> (cos (radians 17.5), sin (radians 17.5)),
      ''T4'' \<mapsto> (cos (radians 52.5), sin (radians 52.5))]"
proof -
  have a: "- radians 35 * real_of_int (4 - 1) / 2 + radians 35 * real (0::nat) = radians (- 52.5)"
      "- radians 35 * real_of_int (4 - 1) / 2 + radians 35 * real (1::nat) = radians (- 17.5)"
      "- radians 35 * real_of_int (4 - 1) / 2 + radians 35 * real (2::nat) = radians 17.5"
      "- radians 35 * real_of_int (4 - 1) / 2 + radians 35 * real (3::nat) = radians 52.5"
    using default_angles_4 by simp_all
  have n: "''T'' @ str_nat (0 + 1) = ''T1''" "''T'' @ str_nat (1 + 1) = ''T2''"
    "''T'' @ str_nat (2 + 1) = ''T3''" "''T'' @ str_nat (3 + 1) = ''T4''"
    by (rule T_names)+
  show ?thesis
    unfolding foldl.simps rotary_contact_def Let_def a n
    by (simp add: element_ops)
qed

text \<open>
  Claim C2. With \<^verbatim>\<open>dtheta\<close> and \<^verbatim>\<open>theta0\<close> omitted, \<^verbatim>\<open>dtheta\<close> is
  \<open>min 35 (360 / (n + 1))\<close> degrees, converted to radians, and \<^verbatim>\<open>theta0\<close> is
  \<open>- dtheta * (n - 1) / 2\<close>. For every contact index \<open>i\<close> below \<open>n\<close> the anchor
  \<open>T{i+1}\<close> and a contact circle are at
  \<open>(radius * cos (theta0 + dtheta * i), radius * sin (theta0 + dtheta * i))\<close>, the anchor
  \<open>P\<close> is at the origin, and there are no other anchors. For \<open>n = 4\<close> and radius 1 the
  anchors are \<open>P\<close> at the origin and \<open>T1\<close> to \<open>T4\<close> at the angles -52.5, -17.5, 17.5
  and 52.5 degrees. The one excluded input is \<open>n = -1\<close>, where \<^verbatim>\<open>360/(n+1)\<close> divides by
  zero; the contact count of the spec is at least 1.
\<close>

theorem SwitchRotary_defaults:
  assumes "n \<noteq> - 1"
      and "dtheta = radians (min 35 (360 / real_of_int (n + 1)))"
      and "theta0 = - dtheta * real_of_int (n - 1) / 2"
  shows "(\<exists>self. SwitchRotary n None None radius arrowlen arrowcontact = Inr self
      \<and> anchors self ''P'' = Some (0, 0)
      \<and> (\<forall>i. int i < n \<longrightarrow>
            anchors self (''T'' @ str_nat (i + 1))
              = Some (radius * cos (theta0 + dtheta * real i),
                      radius * sin (theta0 + dtheta * real i))
          \<and> SegmentCircle (radius * cos (theta0 + dtheta * real i),
                            radius * sin (theta0 + dtheta * real i)) sw_dot_r
              \<in> set (segments self))
      \<and> dom (anchors self) = insert ''P'' ((\<lambda>i. ''T'' @ str_nat (i + 1)) ` {i. int i < n}))
   \<and> (\<exists>self. SwitchRotary 4 None None 1 arrowlen arrowcontact = Inr self
      \<and> anchors self =
          [''P'' \<mapsto> (0, 0),
           ''T1'' \<mapsto> (cos (radians (- 52.5)), sin (radians (- 52.5))),
           ''T2'' \<mapsto> (cos (radians (- 17.5)), sin (radians (- 17.5))),
           ''T3'' \<mapsto> (cos (radians 17.5), sin (radians 17.5)),
           ''T4'' \<mapsto> (cos (radians 52.5), sin (radians 52.5))])"
proof (rule conjI)
  let ?init = "\<lparr>segments = [SegmentCircle (0, 0) sw_dot_r], anchors = [''P'' \<mapsto> (0, 0)],
           params = [''fill'' \<mapsto> PStr ''bg'', ''zorder'' \<mapsto> PInt 4]\<rparr>"
  let ?self = "foldl (rotary_contact theta0 dtheta radius arrowlen arrowcontact) ?init [0..<nat n]"
  have r: "SwitchRotary n None None radius arrowlen arrowcontact = Inr ?self"
    by (rule SwitchRotary_Inr) (simp_all add: assms)
  have p: "anchors ?self ''P'' = Some (0, 0)"
    by (subst rotary_anchors_other) simp_all
  have t: "\<forall>i. int i < n \<longrightarrow>
            anchors ?self (''T'' @ str_nat (i + 1))
              = Some (radius * cos (theta0 + dtheta * real i),
                      radius * sin (theta0 + dtheta * real i))
          \<and> SegmentCircle (radius * cos (theta0 + dtheta * real i),
                            radius * sin (theta0 + dtheta * real i)) sw_dot_r
              \<in> set (segments ?self)"
  proof (intro allI impI)
    fix i :: nat
    assume "int i < n"
    then have l: "i < nat n" by simp
    show "anchors ?self (''T'' @ str_nat (i + 1))
              = Some (radius * cos (theta0 + dtheta * real i),
                      radius * sin (theta0 + dtheta * real i))
          \<and> SegmentCircle (radius * cos (theta0 + dtheta * real i),
                            radius * sin (theta0 + dtheta * real i)) sw_dot_r
              \<in> set (segments ?self)"
      using rotary_anchors_T [OF l] rotary_circle_mem [OF l] by simp
  qed
  have e: "{..<nat n} = {i. int i < n}" by auto
  have d: "dom (anchors ?self) = insert ''P'' ((\<lambda>i. ''T'' @ str_nat (i + 1)) ` {i. int i < n})"
    unfolding rotary_anchors_dom e by simp
  from r p t d
  show "\<exists>self. SwitchRotary n None None radius arrowlen arrowcontact = Inr self
      \<and> anchors self ''P'' = Some (0, 0)
      \<and> (\<forall>i. int i < n \<longrightarrow>
            anchors self (''T'' @ str_nat (i + 1))
              = Some (radius * cos (theta0 + dtheta * real i),
                      radius * sin (theta0 + dtheta * real i))
          \<and> SegmentCircle (radius * cos (theta0 + dtheta * real i),
                            radius * sin (theta0 + dtheta * real i)) sw_dot_r
              \<in> set (segments self))
      \<and> dom (anchors self) = insert ''P'' ((\<lambda>i. ''T'' @ str_nat (i + 1)) ` {i. int i < n})"
    by blast
next
  show "\<exists>self. SwitchRotary 4 None None 1 arrowlen arrowcontact = Inr self
      \<and> anchors self =
          [''P'' \<mapsto> (0, 0),
           ''T1'' \<mapsto> (cos (radians (- 52.5)), sin (radians (- 52.5))),
           ''T2'' \<mapsto> (cos (radians (- 17.5)), sin (radians (- 17.5))),
           ''T3'' \<mapsto> (cos (radians 17.5), sin (radians 17.5)),
           ''T4'' \<mapsto> (cos (radians 52.5), sin (radians 52.5))]"
    unfolding SwitchRotary_4 using SwitchRotary_4_anchors by blast
qed

theorem SwitchRotary_defaults_witness:
  "\<exists>self. SwitchRotary 2 None None 2 0.75 0 = Inr self
      \<and> anchors self ''P'' = Some (0, 0)
      \<and> anchors self ''T1'' = Some (2 * cos (radians (- 17.5)), 2 * sin (radians (- 17.5)))
      \<and> anchors self ''T2'' = Some (2 * cos (radians 17.5), 2 * sin (radians 17.5))
      \<and> dom (anchors self) = {''P'', ''T1'', ''T2''}"
proof -
  have a: "- radians 35 * real_of_int (2 - 1) / 2 + radians 35 * real (0::nat) = radians (- 17.5)"
    "- radians 35 * real_of_int (2 - 1) / 2 + radians 35 * real (1::nat) = radians 17.5"
    by (simp_all add: radians_def)
  have s: "{i. int i < 2} = {0, 1}" by auto
  from SwitchRotary_defaults [of 2 "radians 35" "- radians 35 * real_of_int (2 - 1) / 2" 2 "0.75" 0]
  obtain self where r: "SwitchRotary 2 None None 2 0.75 0 = Inr self"
    and p: "anchors self ''P'' = Some (0, 0)"
    and t: "\<forall>i. int i < 2 \<longrightarrow>
            anchors self (''T'' @ str_nat (i + 1))
              = Some (2 * cos (- radians 35 * real_of_int (2 - 1) / 2 + radians 35 * real i),
                      2 * sin (- radians 35 * real_of_int (2 - 1) / 2 + radians 35 * real i))
          \<and> SegmentCircle (2 * cos (- radians 35 * real_of_int (2 - 1) / 2 + radians 35 * real i),
                            2 * sin (- radians 35 * real_of_int (2 - 1) / 2 + radians 35 * real i)) sw_dot_r
              \<in> set (segments self)"
    and d: "dom (anchors self) = insert ''P'' ((\<lambda>i. ''T'' @ str_nat (i + 1)) ` {i. int i < 2})"
    by auto
  from t [rule_format, of 0] have t1:
    "anchors self ''T1'' = Some (2 * cos (radians (- 17.5)), 2 * sin (radians (- 17.5)))"
    unfolding a T_names by simp
  from t [rule_format, of 1] have t2:
    "anchors self ''T2'' = Some (2 * cos (radians 17.5), 2 * sin (radians 17.5))"
    unfolding a T_names by simp
  from d have d': "dom (anchors self) = {''P'', ''T1'', ''T2''}"
    unfolding s using T_names(1,2) by simp
  from r p t1 t2 d' show ?thesis by blast
qed

text \<open>
  Claim C3. Let \<open>angle\<close> be the angle of the contact of index \<^verbatim>\<open>arrowcontact\<close>, from
  the supplied or derived \<^verbatim>\<open>dtheta\<close> and \<^verbatim>\<open>theta0\<close>. If \<^verbatim>\<open>arrowcontact\<close> lies in
  \<open>[0, n)\<close>, the element has exactly one arrow segment, from the origin to
  \<open>(arrowlen * cos angle, arrowlen * sin angle)\<close>, and the anchor and circle of that contact
  are at \<open>(radius * cos angle, radius * sin angle)\<close>. Otherwise it has no arrow segment.
  In both cases the constructor returns an element. The one excluded input is
  \<open>n = -1\<close> with \<^verbatim>\<open>dtheta\<close> omitted, where \<^verbatim>\<open>360/(n+1)\<close> divides by zero whatever
  \<^verbatim>\<open>arrowcontact\<close> is; the contact count of the spec is at least 1.
\<close>

theorem SwitchRotary_arrow:
  assumes "dtheta = None \<longrightarrow> n \<noteq> - 1"
      and "dth = radians (case dtheta of None \<Rightarrow> min 35 (360 / real_of_int (n + 1)) | Some d \<Rightarrow> d)"
      and "th0 = (case theta0 of None \<Rightarrow> - dth * real_of_int (n - 1) / 2 | Some t0 \<Rightarrow> t0)"
      and "angle = th0 + dth * real_of_int arrowcontact"
  shows "\<exists>self. SwitchRotary n dtheta theta0 radius arrowlen arrowcontact = Inr self
     \<and> filter is_arrow (segments self) =
         (if 0 \<le> arrowcontact \<and> arrowcontact < n
          then [SegmentArrow (0, 0) (arrowlen * cos angle, arrowlen * sin angle) 2] else [])
     \<and> (0 \<le> arrowcontact \<and> arrowcontact < n \<longrightarrow>
          anchors self (''T'' @ str_nat (nat arrowcontact + 1))
            = Some (radius * cos angle, radius * sin angle)
        \<and> SegmentCircle (radius * cos angle, radius * sin angle) sw_dot_r \<in> set (segments self))"
proof -
  let ?self = "foldl (rotary_contact th0 dth radius arrowlen arrowcontact)
          \<lparr>segments = [SegmentCircle (0, 0) sw_dot_r], anchors = [''P'' \<mapsto> (0, 0)],
           params = [''fill'' \<mapsto> PStr ''bg'', ''zorder'' \<mapsto> PInt 4]\<rparr> [0..<nat n]"
  have r: "SwitchRotary n dtheta theta0 radius arrowlen arrowcontact = Inr ?self"
    using assms(1-3) by (rule SwitchRotary_Inr)
  have a: "filter is_arrow (segments ?self) =
         (if 0 \<le> arrowcontact \<and> arrowcontact < n
          then [SegmentArrow (0, 0) (arrowlen * cos angle, arrowlen * sin angle) 2] else [])"
    unfolding rotary_segments using assms(4)
    by (simp add: rotary_arrows)
  have t: "anchors ?self (''T'' @ str_nat (nat arrowcontact + 1))
            = Some (radius * cos angle, radius * sin angle)"
    and c: "SegmentCircle (radius * cos angle, radius * sin angle) sw_dot_r \<in> set (segments ?self)"
    if "0 \<le> arrowcontact \<and> arrowcontact < n"
  proof -
    from that have l: "nat arrowcontact < nat n" by simp
    from that have e: "real (nat arrowcontact) = real_of_int arrowcontact" by simp
    show "anchors ?self (''T'' @ str_nat (nat arrowcontact + 1))
            = Some (radius * cos angle, radius * sin angle)"
      using rotary_anchors_T [OF l] e assms(4) by simp
    show "SegmentCircle (radius * cos angle, radius * sin angle) sw_dot_r \<in> set (segments ?self)"
      unfolding rotary_segments using l e assms(4) by (auto intro!: bexI [of _ "nat arrowcontact"])
  qed
  from r a t c show ?thesis by blast
qed

theorem SwitchRotary_arrow_witness:
  "(\<exists>self. SwitchRotary 4 None None 1 0.75 2 = Inr self
      \<and> filter is_arrow (segments self) =
          [SegmentArrow (0, 0) (0.75 * cos (radians 17.5), 0.75 * sin (radians 17.5)) 2]
      \<and> anchors self ''T3'' = Some (cos (radians 17.5), sin (radians 17.5)))
   \<and> (\<exists>self. SwitchRotary 4 None None 1 0.75 4 = Inr self
      \<and> filter is_arrow (segments self) = [])"
proof (rule conjI)
  have a: "radians 17.5 = - radians 35 * real_of_int (4 - 1) / 2 + radians 35 * real_of_int 2"
    by (simp add: radians_def)
  show "\<exists>self. SwitchRotary 4 None None 1 0.75 2 = Inr self
      \<and> filter is_arrow (segments self) =
          [SegmentArrow (0, 0) (0.75 * cos (radians 17.5), 0.75 * sin (radians 17.5)) 2]
      \<and> anchors self ''T3'' = Some (cos (radians 17.5), sin (radians 17.5))"
    using SwitchRotary_arrow [of None 4 "radians 35" "- radians 35 * real_of_int (4 - 1) / 2"
        None "radians 17.5" 2 1 "0.75"] a T_names(3)
    by simp blast
next
  show "\<exists>self. SwitchRotary 4 None None 1 0.75 4 = Inr self
      \<and> filter is_arrow (segments self) = []"
    using SwitchRotary_arrow [of None 4 "radians 35" "- radians 35 * real_of_int (4 - 1) / 2"
        None "- radians 35 * real_of_int (4 - 1) / 2 + radians 35 * real_of_int 4" 4 1 "0.75"]
    by simp
qed

text \<open>
  Claim C9. \<^verbatim>\<open>SwitchRotary\<close> with \<open>n = 0\<close> raises nothing and returns an element whose
  only segment is the contact circle at the origin and whose only anchor is \<open>P\<close> at the
  origin, whatever the other arguments are.
\<close>

theorem SwitchRotary_n0:
  "SwitchRotary 0 dtheta theta0 radius arrowlen arrowcontact =
     Inr \<lparr>segments = [SegmentCircle (0, 0) sw_dot_r], anchors = [''P'' \<mapsto> (0, 0)],
          params = [''fill'' \<mapsto> PStr ''bg'', ''zorder'' \<mapsto> PInt 4]\<rparr>"
  by (cases dtheta; cases theta0) (simp_all add: SwitchRotary_def element_ops Let_def)

text \<open>
  Claim C10. \<^verbatim>\<open>SwitchRotary\<close> with \<open>n = 1\<close>, \<^verbatim>\<open>dtheta\<close> and \<^verbatim>\<open>theta0\<close> omitted and
  \<^verbatim>\<open>arrowcontact = 0\<close> places its single contact at angle 0: the anchor \<open>T1\<close> and the
  contact circle are at \<open>(radius, 0)\<close>, and the pointer arrow runs from the origin to
  \<open>(arrowlen, 0)\<close>.
\<close>

theorem SwitchRotary_n1:
  "SwitchRotary 1 None None radius arrowlen 0 =
     Inr \<lparr>segments = [SegmentCircle (0, 0) sw_dot_r, SegmentCircle (radius, 0) sw_dot_r,
                      SegmentArrow (0, 0) (arrowlen, 0) 2],
          anchors = [''P'' \<mapsto> (0, 0), ''T1'' \<mapsto> (radius, 0)],
          params = [''fill'' \<mapsto> PStr ''bg'', ''zorder'' \<mapsto> PInt 4]\<rparr>"
  by (simp add: SwitchRotary_def rotary_contact_def element_ops Let_def str_nat_digit digit_char_def)

text \<open>
  Claim C1 asks for contact \<open>i\<close> at \<open>theta0 + dtheta * i\<close> degrees when both angles are
  supplied in degrees, as the docstring of the class says they are. The constructor
  converts \<^verbatim>\<open>dtheta\<close> to radians and leaves a supplied \<^verbatim>\<open>theta0\<close> as it is. Evaluated
  at \<^verbatim>\<open>SwitchRotary(n=1, dtheta=20, theta0=1)\<close>: the anchor \<open>T1\<close> is at angle 1 radian,
  not at 1 degree.
\<close>

theorem SwitchRotary_theta0_radians:
  "\<exists>self. SwitchRotary 1 (Some 20) (Some 1) 1 0.75 0 = Inr self
     \<and> anchors self ''T1'' = Some (cos 1, sin 1)
     \<and> Some (cos 1, sin 1) \<noteq> Some (cos (radians (1 + 20 * 0)), sin (radians (1 + 20 * 0)))"
proof -
  let ?self = "foldl (rotary_contact 1 (radians 20) 1 0.75 0)
          \<lparr>segments = [SegmentCircle (0, 0) sw_dot_r], anchors = [''P'' \<mapsto> (0, 0)],
           params = [''fill'' \<mapsto> PStr ''bg'', ''zorder'' \<mapsto> PInt 4]\<rparr> [0..<nat 1]"
  have r: "SwitchRotary 1 (Some 20) (Some 1) 1 0.75 0 = Inr ?self"
    by (rule SwitchRotary_Inr) simp_all
  have "anchors ?self (''T'' @ str_nat (0 + 1)) =
          Some (1 * cos (1 + radians 20 * real 0), 1 * sin (1 + radians 20 * real 0))"
    by (rule rotary_anchors_T) simp
  then have a: "anchors ?self ''T1'' = Some (cos 1, sin 1)"
    by (simp only: T_names) simp
  have "cos 1 \<noteq> cos (pi / 180)"
  proof
    assume e: "cos (1::real) = cos (pi / 180)"
    have "(1::real) \<le> pi" using pi_ge_two by linarith
    with e have "1 = pi / 180"
      using cos_inj_pi [of 1 "pi / 180"] by simp
    with pi_less_4 show False by simp
  qed
  then have n: "Some (cos 1, sin 1) \<noteq> Some (cos (radians (1 + 20 * 0)), sin (radians (1 + 20 * 0)))"
    by (simp add: radians_def)
  from r a n show ?thesis by blast
qed

end
